theory Spec2Isabelle
  imports Complex_Main
begin

section \<open>Data model (init-db.js: tables assets and reservations; req.user; req.body)\<close>

text \<open>
  Identifiers are the UUID columns of the schema; only equality on them is used, so a
  well-formed UUID is a natural number here. Timestamps are milliseconds since the epoch.
  The theory has two layers. The first is the admission core on values: identifiers that
  are UUIDs and dates that PostgreSQL and the JavaScript \<open>Date\<close> read as one and the same
  timestamp (\<open>createReservation\<close>, \<open>cancelReservation\<close>). The second is the two
  handlers on the request as it arrives, where a field may be text that PostgreSQL
  refuses, may be missing, and may be read differently by JavaScript
  (\<open>postReservations\<close>, \<open>patchReservationCancel\<close>); on a request of the first kind
  the two layers agree. The datastore is taken to answer every query it is sent.
\<close>

type_synonym uuid = nat
type_synonym timestamp = int

datatype asset_type = Plane | Boat | Home | Vehicle

record asset =
  a_id :: uuid
  a_family_id :: uuid
  a_name :: string
  a_type :: asset_type

datatype status = Pending | Confirmed | Active | Completed | Cancelled

record reservation =
  r_id :: uuid
  r_asset_id :: uuid
  r_user_id :: uuid
  start_date :: timestamp
  end_date :: timestamp
  status :: status
  r_notes :: "string option"
  r_metadata :: "string option"
  created_at :: timestamp
  updated_at :: timestamp

text \<open>The row of \<open>users\<close> that the authentication middleware stores in \<open>req.user\<close>;
  \<open>family_id\<close> is a nullable column.\<close>

record user =
  u_id :: uuid
  u_family_id :: "uuid option"
  tier :: int

text \<open>The fields the handler destructures from \<open>req.body\<close>.\<close>

record body =
  assetId :: uuid
  startDate :: timestamp
  endDate :: timestamp
  b_notes :: "string option"
  b_metadata :: "string option"

text \<open>What a handler reads from outside the datastore: the JavaScript clock
  (\<open>new Date()\<close>), the generated identifier (\<open>uuidv4()\<close>) and the database clock
  (\<open>NOW()\<close>).\<close>

record env =
  now :: timestamp
  new_id :: uuid
  db_now :: timestamp

record datastore =
  assets :: "asset list"
  reservations :: "reservation list"

text \<open>The responses of the two handlers other than the row itself: 404, 409, 403 with
  the tier and the limit of its message, and the 500 of the \<open>catch\<close> block.\<close>

datatype admission_error = NotFound | Conflict | Forbidden int int | InternalFailure

section \<open>The queries of the reservation handlers\<close>

text \<open>\<open>SELECT * FROM assets WHERE id = $1 AND family_id = $2\<close>. A NULL \<open>$2\<close> equals no
  family.\<close>

definition findAsset :: "datastore \<Rightarrow> uuid \<Rightarrow> uuid option \<Rightarrow> asset list" where
  "findAsset db aid fam =
     filter (\<lambda>a. a_id a = aid \<and> Some (a_family_id a) = fam) (assets db)"

text \<open>
  The operator \<open>(start1, end1) OVERLAPS (start2, end2)\<close> of the conflict query, as
  PostgreSQL evaluates it on non-null timestamps (the columns are \<open>NOT NULL\<close>): the
  earlier value of each pair is taken as its start; then, by case on the two starts, the
  later start must lie strictly before the other period's end, and two equal starts
  always overlap. So a period is the half-open \<open>start \<le> t < end\<close>, or the single
  instant \<open>start\<close> when both values are equal, and two periods with only an endpoint
  in common do not overlap.
\<close>

definition overlaps_timestamp :: "timestamp \<Rightarrow> timestamp \<Rightarrow> timestamp \<Rightarrow> timestamp \<Rightarrow> bool" where
  "overlaps_timestamp ts1 te1 ts2 te2 =
     (let s1 = (if ts1 > te1 then te1 else ts1);
          e1 = (if ts1 > te1 then ts1 else te1);
          s2 = (if ts2 > te2 then te2 else ts2);
          e2 = (if ts2 > te2 then ts2 else te2)
      in if s1 > s2 then s1 < e2
         else if s1 < s2 then s2 < e1
         else True)"

text \<open>The \<open>WHERE\<close> clause of the conflict query, for one row.\<close>

definition conflicts_with :: "uuid \<Rightarrow> timestamp \<Rightarrow> timestamp \<Rightarrow> reservation \<Rightarrow> bool" where
  "conflicts_with aid s e r =
     (r_asset_id r = aid \<and> status r \<noteq> Cancelled \<and>
      overlaps_timestamp (start_date r) (end_date r) s e)"

definition conflictQuery :: "datastore \<Rightarrow> uuid \<Rightarrow> timestamp \<Rightarrow> timestamp \<Rightarrow> uuid list" where
  "conflictQuery db aid s e = map r_id (filter (conflicts_with aid s e) (reservations db))"

text \<open>\<open>Math.ceil((new Date(startDate) - new Date()) / (1000 * 60 * 60 * 24))\<close>: the
  ceiling of the quotient, on integers. The handler only compares the result with a limit
  of at most 365, and a quotient of two integers that is above such a limit is above it
  by at least 1/86400000, far more than a double rounds away: the comparison in floating
  point is the exact one.\<close>

definition msPerDay :: int where
  "msPerDay = 1000 * 60 * 60 * 24"

definition daysAhead :: "timestamp \<Rightarrow> timestamp \<Rightarrow> int" where
  "daysAhead start n = - ((n - start) div msPerDay)"

text \<open>\<open>[365, 180, 90, 30][req.user.tier - 1] || 30\<close>: an index outside the array reads
  \<open>undefined\<close>, and \<open>||\<close> replaces \<open>undefined\<close> and \<open>0\<close> by 30.\<close>

definition maxDaysAhead :: "int \<Rightarrow> int" where
  "maxDaysAhead t =
     (let table = [365, 180, 90, 30]; i = t - 1
      in if 0 \<le> i \<and> i < int (length table)
         then (if table ! nat i = 0 then 30 else table ! nat i)
         else 30)"

text \<open>The row of the \<open>INSERT\<close>: status \<open>'confirmed'\<close>, \<open>created_at = NOW()\<close>, and
  \<open>updated_at\<close> from its column default \<open>NOW()\<close>.\<close>

definition new_row :: "env \<Rightarrow> user \<Rightarrow> body \<Rightarrow> reservation" where
  "new_row ev u b =
     \<lparr> r_id = new_id ev, r_asset_id = assetId b, r_user_id = u_id u,
       start_date = startDate b, end_date = endDate b, status = Confirmed,
       r_notes = b_notes b, r_metadata = b_metadata b,
       created_at = db_now ev, updated_at = db_now ev \<rparr>"

text \<open>\<open>INSERT INTO reservations ... RETURNING *\<close> of a row whose columns are all
  values. The primary key rejects an identifier that is already in the table; the
  handler's \<open>catch\<close> answers 500 then. (Parameters that PostgreSQL refuses, and NULL
  for a \<open>NOT NULL\<close> column, are in \<open>insert_params\<close> below.)\<close>

definition insertReservation ::
  "datastore \<Rightarrow> reservation \<Rightarrow> datastore \<times> (admission_error + reservation)" where
  "insertReservation db r =
     (if r_id r \<in> set (map r_id (reservations db)) then (db, Inl InternalFailure)
      else (db\<lparr>reservations := reservations db @ [r]\<rparr>, Inr r))"

section \<open>POST /api/reservations, on values\<close>

text \<open>The handler on a body whose asset id is a UUID and whose dates PostgreSQL and
  JavaScript both read, as the same timestamps: no query throws before the insert.\<close>

definition createReservation ::
  "env \<Rightarrow> datastore \<Rightarrow> user \<Rightarrow> body \<Rightarrow> datastore \<times> (admission_error + reservation)" where
  "createReservation ev db u b =
     (if findAsset db (assetId b) (u_family_id u) = [] then (db, Inl NotFound)
      else if conflictQuery db (assetId b) (startDate b) (endDate b) \<noteq> []
      then (db, Inl Conflict)
      else if daysAhead (startDate b) (now ev) > maxDaysAhead (tier u)
      then (db, Inl (Forbidden (tier u) (maxDaysAhead (tier u))))
      else insertReservation db (new_row ev u b))"

section \<open>PATCH /api/reservations/:id/cancel, on values\<close>

text \<open>\<open>UPDATE reservations SET status = 'cancelled', updated_at = NOW()
  WHERE id = $1 AND user_id = $2 RETURNING *\<close> for an \<open>:id\<close> that is a UUID; no row
  gives 404, otherwise the first returned row is the answer.\<close>

definition cancel_matches :: "uuid \<Rightarrow> uuid \<Rightarrow> reservation \<Rightarrow> bool" where
  "cancel_matches rid uid r = (r_id r = rid \<and> r_user_id r = uid)"

definition cancel_row :: "timestamp \<Rightarrow> reservation \<Rightarrow> reservation" where
  "cancel_row t r = r\<lparr>status := Cancelled, updated_at := t\<rparr>"

definition cancelReservation ::
  "env \<Rightarrow> datastore \<Rightarrow> user \<Rightarrow> uuid \<Rightarrow> datastore \<times> (admission_error + reservation)" where
  "cancelReservation ev db u rid =
     (let rows = map (cancel_row (db_now ev))
                     (filter (cancel_matches rid (u_id u)) (reservations db))
      in case rows of
           [] \<Rightarrow> (db, Inl NotFound)
         | r # _ \<Rightarrow>
             (db\<lparr>reservations :=
                   map (\<lambda>x. if cancel_matches rid (u_id u) x then cancel_row (db_now ev) x else x)
                       (reservations db)\<rparr>,
              Inr r))"

section \<open>Sequences of operations\<close>

datatype operation =
    Create env user body
  | Cancel env user uuid

fun apply_operation :: "operation \<Rightarrow> datastore \<Rightarrow> datastore" where
  "apply_operation (Create ev u b) db = fst (createReservation ev db u b)"
| "apply_operation (Cancel ev u rid) db = fst (cancelReservation ev db u rid)"

definition run :: "operation list \<Rightarrow> datastore \<Rightarrow> datastore" where
  "run ops db = fold apply_operation ops db"

text \<open>No two rows at different positions clash.\<close>

fun no_conflicts :: "(reservation \<Rightarrow> reservation \<Rightarrow> bool) \<Rightarrow> reservation list \<Rightarrow> bool" where
  "no_conflicts clash [] = True"
| "no_conflicts clash (r # rs) = ((\<forall>x \<in> set rs. \<not> clash r x) \<and> no_conflicts clash rs)"

text \<open>Two rows clash when they are on one asset, neither is cancelled, and their
  intervals overlap; once with the operator of the conflict query, once with the
  inclusive predicate of the specification (\<open>s1 \<le> e2\<close> and \<open>s2 \<le> e1\<close>).\<close>

definition clash_overlaps :: "reservation \<Rightarrow> reservation \<Rightarrow> bool" where
  "clash_overlaps r x =
     (r_asset_id r = r_asset_id x \<and> status r \<noteq> Cancelled \<and> status x \<noteq> Cancelled \<and>
      overlaps_timestamp (start_date r) (end_date r) (start_date x) (end_date x))"

definition spec_inclusive_overlap :: "timestamp \<Rightarrow> timestamp \<Rightarrow> timestamp \<Rightarrow> timestamp \<Rightarrow> bool" where
  "spec_inclusive_overlap s1 e1 s2 e2 = (s1 \<le> e2 \<and> s2 \<le> e1)"

definition clash_inclusive :: "reservation \<Rightarrow> reservation \<Rightarrow> bool" where
  "clash_inclusive r x =
     (r_asset_id r = r_asset_id x \<and> status r \<noteq> Cancelled \<and> status x \<noteq> Cancelled \<and>
      spec_inclusive_overlap (start_date r) (end_date r) (start_date x) (end_date x))"

section \<open>The handler as its three awaited queries\<close>

text \<open>
  The handler of \<open>POST /api/reservations\<close> awaits three queries; between two of them
  another request's queries may reach the datastore. A handler is at one of its awaits or
  has responded.
\<close>

datatype handler =
    AwaitAsset
  | AwaitConflict
  | AwaitInsert
  | Responded "admission_error + reservation"

record request =
  rq_env :: env
  rq_user :: user
  rq_body :: body

fun handler_step :: "request \<Rightarrow> datastore \<Rightarrow> handler \<Rightarrow> datastore \<times> handler" where
  "handler_step rq db AwaitAsset =
     (if findAsset db (assetId (rq_body rq)) (u_family_id (rq_user rq)) = []
      then (db, Responded (Inl NotFound))
      else (db, AwaitConflict))"
| "handler_step rq db AwaitConflict =
     (if conflictQuery db (assetId (rq_body rq)) (startDate (rq_body rq)) (endDate (rq_body rq)) \<noteq> []
      then (db, Responded (Inl Conflict))
      else if daysAhead (startDate (rq_body rq)) (now (rq_env rq)) > maxDaysAhead (tier (rq_user rq))
      then (db, Responded (Inl (Forbidden (tier (rq_user rq)) (maxDaysAhead (tier (rq_user rq))))))
      else (db, AwaitInsert))"
| "handler_step rq db AwaitInsert =
     (case insertReservation db (new_row (rq_env rq) (rq_user rq) (rq_body rq)) of
        (db', res) \<Rightarrow> (db', Responded res))"
| "handler_step rq db (Responded res) = (db, Responded res)"

text \<open>Two requests in flight; a schedule says whose query the datastore serves next
  (\<open>True\<close>: the first request).\<close>

fun interleave ::
  "bool list \<Rightarrow> request \<Rightarrow> request \<Rightarrow> datastore \<times> handler \<times> handler \<Rightarrow> datastore \<times> handler \<times> handler" where
  "interleave [] rqA rqB st = st"
| "interleave (True # sch) rqA rqB (db, hA, hB) =
     (case handler_step rqA db hA of (db', hA') \<Rightarrow> interleave sch rqA rqB (db', hA', hB))"
| "interleave (False # sch) rqA rqB (db, hA, hB) =
     (case handler_step rqB db hB of (db', hB') \<Rightarrow> interleave sch rqA rqB (db', hA, hB'))"

section \<open>The handlers on the request as it arrives\<close>

text \<open>
  The fields of \<open>req.body\<close> and the \<open>:id\<close> of the path go into the queries as they
  are. PostgreSQL reads a parameter for the type of its column or cast: it refuses the
  text, and the query throws (\<open>abc\<close> for a uuid, \<open>5\<close> for a timestamp, an array for
  jsonb); or it reads NULL (\<open>null\<close>, or a field that is missing); or it reads a value.
\<close>

datatype 'a pg_param = Rejected | Null | Val 'a

fun param_value :: "'a pg_param \<Rightarrow> 'a option" where
  "param_value (Val v) = Some v"
| "param_value Null = None"
| "param_value Rejected = None"

text \<open>
  A body is what its readers make of each field. \<open>startDate\<close> has two readers: the
  cast \<open>$2::timestamp\<close> of PostgreSQL, and \<open>new Date(startDate)\<close> of JavaScript, whose
  time value is a number of milliseconds or \<open>NaN\<close> (\<open>None\<close>) when it cannot read the
  field. The two need not agree: of the string \<open>20300101\<close> PostgreSQL makes a date and
  JavaScript makes \<open>NaN\<close>.
\<close>

record raw_body =
  pg_assetId :: "uuid pg_param"
  pg_startDate :: "timestamp pg_param"
  pg_endDate :: "timestamp pg_param"
  js_startDate :: "timestamp option"
  pg_notes :: "string pg_param"
  pg_metadata :: "string pg_param"

text \<open>
  \<open>OVERLAPS\<close> when the dates of the request may be NULL (those of the row are not).
  With both NULL the result is NULL. With one NULL the other date stands for the start of
  the period and its end is unknown: the result is true when that date lies strictly
  inside the row's period, and NULL otherwise. \<open>None\<close> is NULL.
\<close>

definition overlaps_timestamp_null ::
  "timestamp \<Rightarrow> timestamp \<Rightarrow> timestamp option \<Rightarrow> timestamp option \<Rightarrow> bool option" where
  "overlaps_timestamp_null ts1 te1 p2 q2 =
     (let s1 = (if ts1 > te1 then te1 else ts1);
          e1 = (if ts1 > te1 then ts1 else te1);
          one = (\<lambda>t. if s1 > t then None
                      else if s1 < t then (if t < e1 then Some True else None)
                      else None)
      in case (p2, q2) of
           (None, None) \<Rightarrow> None
         | (None, Some t) \<Rightarrow> one t
         | (Some t, None) \<Rightarrow> one t
         | (Some ts2, Some te2) \<Rightarrow> Some (overlaps_timestamp ts1 te1 ts2 te2))"

text \<open>The conflict query; a row is selected when its \<open>WHERE\<close> clause is true, not when
  it is NULL.\<close>

definition conflicts_with_param ::
  "uuid \<Rightarrow> timestamp option \<Rightarrow> timestamp option \<Rightarrow> reservation \<Rightarrow> bool" where
  "conflicts_with_param aid p q r =
     (r_asset_id r = aid \<and> status r \<noteq> Cancelled \<and>
      overlaps_timestamp_null (start_date r) (end_date r) p q = Some True)"

definition conflictQuery_param ::
  "datastore \<Rightarrow> uuid \<Rightarrow> timestamp option \<Rightarrow> timestamp option \<Rightarrow> uuid list" where
  "conflictQuery_param db aid p q =
     map r_id (filter (conflicts_with_param aid p q) (reservations db))"

text \<open>The parameters of the \<open>INSERT\<close> as a row of values, if PostgreSQL takes them: it
  throws when it refuses one of them, and when \<open>asset_id\<close>, \<open>start_date\<close> or
  \<open>end_date\<close>, which are \<open>NOT NULL\<close>, would be NULL. \<open>notes\<close> and \<open>metadata\<close> may be
  NULL.\<close>

definition insert_params :: "raw_body \<Rightarrow> body option" where
  "insert_params rb =
     (case (pg_assetId rb, pg_startDate rb, pg_endDate rb) of
        (Val a, Val s, Val e) \<Rightarrow>
          if pg_notes rb = Rejected \<or> pg_metadata rb = Rejected then None
          else Some \<lparr> assetId = a, startDate = s, endDate = e,
                      b_notes = param_value (pg_notes rb),
                      b_metadata = param_value (pg_metadata rb) \<rparr>
      | _ \<Rightarrow> None)"

text \<open>
  \<open>app.post('/api/reservations', ...)\<close>, with its \<open>catch\<close>. The asset query throws on
  an asset id that is not a UUID, and selects no row for NULL. The conflict query throws
  on a date it cannot read. \<open>daysAhead\<close> comes from JavaScript's reading of
  \<open>startDate\<close>; when that is \<open>NaN\<close>, \<open>daysAhead > maxDaysAhead\<close> is false. Then the
  \<open>INSERT\<close>.
\<close>

definition postReservations ::
  "env \<Rightarrow> datastore \<Rightarrow> user \<Rightarrow> raw_body \<Rightarrow> datastore \<times> (admission_error + reservation)" where
  "postReservations ev db u rb =
     (case pg_assetId rb of
        Rejected \<Rightarrow> (db, Inl InternalFailure)
      | Null \<Rightarrow> (db, Inl NotFound)
      | Val aid \<Rightarrow>
          if findAsset db aid (u_family_id u) = [] then (db, Inl NotFound)
          else if pg_startDate rb = Rejected \<or> pg_endDate rb = Rejected
          then (db, Inl InternalFailure)
          else if conflictQuery_param db aid (param_value (pg_startDate rb))
                    (param_value (pg_endDate rb)) \<noteq> []
          then (db, Inl Conflict)
          else if (case js_startDate rb of
                     None \<Rightarrow> False
                   | Some s \<Rightarrow> daysAhead s (now ev) > maxDaysAhead (tier u))
          then (db, Inl (Forbidden (tier u) (maxDaysAhead (tier u))))
          else (case insert_params rb of
                  None \<Rightarrow> (db, Inl InternalFailure)
                | Some b \<Rightarrow> insertReservation db (new_row ev u b)))"

text \<open>
  \<open>app.patch('/api/reservations/:id/cancel', ...)\<close>, with its \<open>catch\<close>: the \<open>UPDATE\<close>
  throws on an \<open>:id\<close> that is not a UUID. (A segment of the path is never NULL; NULL
  would select no row.)
\<close>

definition patchReservationCancel ::
  "env \<Rightarrow> datastore \<Rightarrow> user \<Rightarrow> uuid pg_param \<Rightarrow> datastore \<times> (admission_error + reservation)" where
  "patchReservationCancel ev db u p =
     (case p of
        Rejected \<Rightarrow> (db, Inl InternalFailure)
      | Null \<Rightarrow> (db, Inl NotFound)
      | Val rid \<Rightarrow> cancelReservation ev db u rid)"

text \<open>A body of values, as the request that carries it.\<close>

definition raw_of :: "body \<Rightarrow> raw_body" where
  "raw_of b =
     \<lparr> pg_assetId = Val (assetId b), pg_startDate = Val (startDate b),
       pg_endDate = Val (endDate b), js_startDate = Some (startDate b),
       pg_notes = (case b_notes b of None \<Rightarrow> Null | Some n \<Rightarrow> Val n),
       pg_metadata = (case b_metadata b of None \<Rightarrow> Null | Some m \<Rightarrow> Val m) \<rparr>"

section \<open>Example data\<close>

text \<open>One family (7) with one asset, two of its members, and bodies of requests whose
  dates are whole days after the epoch.\<close>

definition day :: "int \<Rightarrow> timestamp" where
  "day n = n * msPerDay"

definition ex_asset :: asset where
  "ex_asset = \<lparr> a_id = 1, a_family_id = 7, a_name = ''Citation CJ4'', a_type = Plane \<rparr>"

definition ex_user :: user where
  "ex_user = \<lparr> u_id = 10, u_family_id = Some 7, tier = 4 \<rparr>"

definition other_user :: user where
  "other_user = \<lparr> u_id = 11, u_family_id = Some 7, tier = 2 \<rparr>"

definition stranger :: user where
  "stranger = \<lparr> u_id = 12, u_family_id = Some 8, tier = 1 \<rparr>"

definition ex_booked :: reservation where
  "ex_booked =
     \<lparr> r_id = 100, r_asset_id = 1, r_user_id = 10,
       start_date = day 10, end_date = day 12, status = Confirmed,
       r_notes = None, r_metadata = None, created_at = 0, updated_at = 0 \<rparr>"

definition empty_db :: datastore where
  "empty_db = \<lparr> assets = [ex_asset], reservations = [] \<rparr>"

definition booked_db :: datastore where
  "booked_db = \<lparr> assets = [ex_asset], reservations = [ex_booked] \<rparr>"

definition cancelled_db :: datastore where
  "cancelled_db = \<lparr> assets = [ex_asset], reservations = [ex_booked\<lparr>status := Cancelled\<rparr>] \<rparr>"

definition ex_env :: env where
  "ex_env = \<lparr> now = 0, new_id = 101, db_now = 5 \<rparr>"

definition ex_env2 :: env where
  "ex_env2 = \<lparr> now = 6, new_id = 102, db_now = 8 \<rparr>"

definition body_of :: "timestamp \<Rightarrow> timestamp \<Rightarrow> body" where
  "body_of s e =
     \<lparr> assetId = 1, startDate = s, endDate = e, b_notes = None, b_metadata = None \<rparr>"

text \<open>A sequence of requests served one after the other: a booking, an overlapping
  request, a request that starts where the booking ends, the cancellation of the booking,
  and a request for part of the cancelled interval. Then the two requests alone that
  share an endpoint, and two requests in flight at once for overlapping intervals.\<close>

definition ex_ops :: "operation list" where
  "ex_ops =
     [Create ex_env ex_user (body_of (day 10) (day 12)),
      Create ex_env2 other_user (body_of (day 11) (day 13)),
      Create ex_env2 other_user (body_of (day 12) (day 15)),
      Cancel ex_env2 ex_user 101,
      Create (ex_env2\<lparr>new_id := 103\<rparr>) other_user (body_of (day 11) (day 12))]"

definition adjacent_ops :: "operation list" where
  "adjacent_ops =
     [Create ex_env ex_user (body_of (day 10) (day 12)),
      Create ex_env2 other_user (body_of (day 12) (day 15))]"

definition race_A :: request where
  "race_A = \<lparr> rq_env = ex_env, rq_user = ex_user, rq_body = body_of (day 10) (day 12) \<rparr>"

definition race_B :: request where
  "race_B = \<lparr> rq_env = ex_env2, rq_user = other_user, rq_body = body_of (day 11) (day 13) \<rparr>"

text \<open>Requests as they arrive: an asset id \<open>abc\<close>; a \<open>metadata\<close> that is the array
  \<open>[1,2]\<close>, which is no JSON text once it is sent as a PostgreSQL array; and a
  \<open>startDate\<close> such as \<open>20300101\<close>, a date for PostgreSQL (here day 1155) and
  \<open>NaN\<close> for JavaScript.\<close>

definition malformed_id_body :: raw_body where
  "malformed_id_body = (raw_of (body_of (day 20) (day 22)))\<lparr>pg_assetId := Rejected\<rparr>"

definition array_metadata_body :: raw_body where
  "array_metadata_body = (raw_of (body_of (day 20) (day 22)))\<lparr>pg_metadata := Rejected\<rparr>"

definition unparsed_start_body :: raw_body where
  "unparsed_start_body = (raw_of (body_of (day 1155) (day 1156)))\<lparr>js_startDate := None\<rparr>"

section \<open>Facts about the queries\<close>

lemma maxDaysAhead_table:
  "maxDaysAhead t = (if t = 1 then 365 else if t = 2 then 180 else if t = 3 then 90 else 30)"
proof -
  consider "t \<le> 0" | "t = 1" | "t = 2" | "t = 3" | "t = 4" | "t \<ge> 5" by linarith
  then show ?thesis
    by cases (simp_all add: maxDaysAhead_def)
qed

lemma maxDaysAhead_nonneg: "0 \<le> maxDaysAhead t"
  by (simp add: maxDaysAhead_table)

lemma daysAhead_ceiling:
  "daysAhead start n = \<lceil>real_of_int (start - n) / real_of_int msPerDay\<rceil>"
  by (metis daysAhead_def ceiling_divide_eq_div minus_diff_eq)

lemma daysAhead_past: "start \<le> n \<Longrightarrow> daysAhead start n \<le> 0"
  by (simp add: daysAhead_def msPerDay_def pos_imp_zdiv_nonneg_iff)

lemma overlaps_timestamp_sym:
  "overlaps_timestamp s1 e1 s2 e2 = overlaps_timestamp s2 e2 s1 e1"
  by (auto simp: overlaps_timestamp_def Let_def)

text \<open>On two periods written in order and not empty, the operator is the strict test;
  two such periods that share only an endpoint do not overlap.\<close>

lemma overlaps_timestamp_proper:
  "s1 < e1 \<Longrightarrow> s2 < e2 \<Longrightarrow> overlaps_timestamp s1 e1 s2 e2 = (s1 < e2 \<and> s2 < e1)"
  by (auto simp: overlaps_timestamp_def Let_def)

lemma overlaps_timestamp_adjacent:
  "s1 < e1 \<Longrightarrow> e1 < e2 \<Longrightarrow> \<not> overlaps_timestamp s1 e1 e1 e2"
  by (simp add: overlaps_timestamp_proper)

lemma overlaps_timestamp_swap:
  "overlaps_timestamp s1 e1 e2 s2 = overlaps_timestamp s1 e1 s2 e2"
  by (auto simp: overlaps_timestamp_def Let_def)

lemma conflictQuery_empty_iff:
  "conflictQuery db aid s e = [] \<longleftrightarrow> (\<forall>r \<in> set (reservations db). \<not> conflicts_with aid s e r)"
  by (simp add: conflictQuery_def filter_empty_conv)

lemma findAsset_empty_iff:
  "findAsset db aid fam = [] \<longleftrightarrow>
     \<not> (\<exists>a \<in> set (assets db). a_id a = aid \<and> Some (a_family_id a) = fam)"
  by (auto simp: findAsset_def filter_empty_conv)

lemma insertReservation_cases:
  "insertReservation db r = (db, Inl InternalFailure) \<or>
   insertReservation db r = (db\<lparr>reservations := reservations db @ [r]\<rparr>, Inr r)"
  by (simp add: insertReservation_def)

lemma insertReservation_fresh:
  "r_id r \<notin> r_id ` set (reservations db) \<Longrightarrow>
   insertReservation db r = (db\<lparr>reservations := reservations db @ [r]\<rparr>, Inr r)"
  by (simp add: insertReservation_def)

lemma createReservation_admit:
  assumes "findAsset db (assetId b) (u_family_id u) \<noteq> []"
      and "conflictQuery db (assetId b) (startDate b) (endDate b) = []"
      and "\<not> daysAhead (startDate b) (now ev) > maxDaysAhead (tier u)"
  shows "createReservation ev db u b = insertReservation db (new_row ev u b)"
  using assms by (simp add: createReservation_def)

lemma createReservation_not_forbidden:
  assumes "\<not> daysAhead (startDate b) (now ev) > maxDaysAhead (tier u)"
  shows "snd (createReservation ev db u b) \<noteq> Inl (Forbidden t l)"
  using assms insertReservation_cases [of db "new_row ev u b"]
  by (auto simp: createReservation_def)

lemmas query_defs =
  createReservation_def cancelReservation_def findAsset_def conflictQuery_def
  conflicts_with_def overlaps_timestamp_def daysAhead_def maxDaysAhead_def msPerDay_def
  insertReservation_def new_row_def cancel_matches_def cancel_row_def

lemmas example_defs =
  day_def ex_asset_def ex_user_def other_user_def stranger_def ex_booked_def empty_db_def
  booked_db_def cancelled_db_def ex_env_def ex_env2_def body_of_def ex_ops_def adjacent_ops_def
  race_A_def race_B_def

section \<open>Writes\<close>

text \<open>
  C6. Creating a reservation that succeeds appends exactly one row, the returned one, to
  the reservations and changes nothing else; creating one that fails (NotFound, Conflict,
  Forbidden or the failure of the datastore) leaves the datastore as it was.
\<close>

theorem createReservation_writes:
  "(\<forall>e. snd (createReservation ev db u b) = Inl e \<longrightarrow> fst (createReservation ev db u b) = db) \<and>
   (\<forall>r. snd (createReservation ev db u b) = Inr r \<longrightarrow>
        fst (createReservation ev db u b) = db\<lparr>reservations := reservations db @ [r]\<rparr> \<and>
        length (reservations (fst (createReservation ev db u b))) = Suc (length (reservations db)))"
  using insertReservation_cases [of db "new_row ev u b"]
  by (auto simp: createReservation_def)

theorem createReservation_writes_witness:
  "snd (createReservation ex_env booked_db ex_user (body_of (day 11) (day 13))) = Inl Conflict \<and>
   fst (createReservation ex_env booked_db ex_user (body_of (day 11) (day 13))) = booked_db \<and>
   snd (createReservation (ex_env\<lparr>new_id := 100\<rparr>) booked_db ex_user (body_of (day 20) (day 22)))
     = Inl InternalFailure \<and>
   fst (createReservation (ex_env\<lparr>new_id := 100\<rparr>) booked_db ex_user (body_of (day 20) (day 22)))
     = booked_db \<and>
   snd (createReservation ex_env booked_db ex_user (body_of (day 20) (day 22)))
     = Inr (new_row ex_env ex_user (body_of (day 20) (day 22))) \<and>
   reservations (fst (createReservation ex_env booked_db ex_user (body_of (day 20) (day 22))))
     = [ex_booked, new_row ex_env ex_user (body_of (day 20) (day 22))]"
proof -
  have c: "snd (createReservation ex_env booked_db ex_user (body_of (day 11) (day 13))) = Inl Conflict"
    by (simp add: example_defs query_defs)
  have f: "snd (createReservation (ex_env\<lparr>new_id := 100\<rparr>) booked_db ex_user (body_of (day 20) (day 22)))
     = Inl InternalFailure"
    by (simp add: example_defs query_defs)
  have s: "snd (createReservation ex_env booked_db ex_user (body_of (day 20) (day 22)))
     = Inr (new_row ex_env ex_user (body_of (day 20) (day 22)))"
    by (simp add: example_defs query_defs)
  from c f s
    createReservation_writes [of ex_env booked_db ex_user "body_of (day 11) (day 13)"]
    createReservation_writes [of "ex_env\<lparr>new_id := 100\<rparr>" booked_db ex_user "body_of (day 20) (day 22)"]
    createReservation_writes [of ex_env booked_db ex_user "body_of (day 20) (day 22)"]
  show ?thesis by (simp add: booked_db_def)
qed

section \<open>The tier horizon\<close>

text \<open>
  C10. When the start of the request is not after the current time, the days ahead are at
  most 0 and the limit of every tier, known or not, is at least 0: the request is never
  answered Forbidden, and with the ownership and the conflict check passed the handler
  goes on to the insert; no check asks for a start in the future.
\<close>

theorem createReservation_past_start_passes_tier:
  assumes "startDate b \<le> now ev"
  shows "daysAhead (startDate b) (now ev) \<le> 0 \<and> 0 \<le> maxDaysAhead (tier u) \<and>
         (\<forall>t l. snd (createReservation ev db u b) \<noteq> Inl (Forbidden t l)) \<and>
         (findAsset db (assetId b) (u_family_id u) \<noteq> [] \<longrightarrow>
          conflictQuery db (assetId b) (startDate b) (endDate b) = [] \<longrightarrow>
            createReservation ev db u b = insertReservation db (new_row ev u b))"
proof -
  have d: "daysAhead (startDate b) (now ev) \<le> 0" using assms by (rule daysAhead_past)
  have m: "0 \<le> maxDaysAhead (tier u)" by (rule maxDaysAhead_nonneg)
  from d m have le: "\<not> daysAhead (startDate b) (now ev) > maxDaysAhead (tier u)" by linarith
  from d m le createReservation_not_forbidden [OF le] createReservation_admit [OF _ _ le]
  show ?thesis by blast
qed

theorem createReservation_past_start_passes_tier_witness:
  "startDate (body_of (day (- 20)) (day 1)) \<le> now ex_env \<and>
   daysAhead (startDate (body_of (day (- 20)) (day 1))) (now ex_env) \<le> 0 \<and>
   snd (createReservation ex_env empty_db (ex_user\<lparr>tier := 0\<rparr>) (body_of (day (- 20)) (day 1)))
     \<noteq> Inl (Forbidden 0 30) \<and>
   createReservation ex_env empty_db (ex_user\<lparr>tier := 0\<rparr>) (body_of (day (- 20)) (day 1))
     = (empty_db\<lparr>reservations := [new_row ex_env (ex_user\<lparr>tier := 0\<rparr>) (body_of (day (- 20)) (day 1))]\<rparr>,
        Inr (new_row ex_env (ex_user\<lparr>tier := 0\<rparr>) (body_of (day (- 20)) (day 1))))"
proof -
  have h: "startDate (body_of (day (- 20)) (day 1)) \<le> now ex_env"
    by (simp add: example_defs msPerDay_def)
  have a: "findAsset empty_db (assetId (body_of (day (- 20)) (day 1))) (u_family_id (ex_user\<lparr>tier := 0\<rparr>)) \<noteq> []"
    by (simp add: example_defs findAsset_def)
  have c: "conflictQuery empty_db (assetId (body_of (day (- 20)) (day 1)))
             (startDate (body_of (day (- 20)) (day 1))) (endDate (body_of (day (- 20)) (day 1))) = []"
    by (simp add: example_defs conflictQuery_def)
  have i: "insertReservation empty_db (new_row ex_env (ex_user\<lparr>tier := 0\<rparr>) (body_of (day (- 20)) (day 1)))
     = (empty_db\<lparr>reservations := [new_row ex_env (ex_user\<lparr>tier := 0\<rparr>) (body_of (day (- 20)) (day 1))]\<rparr>,
        Inr (new_row ex_env (ex_user\<lparr>tier := 0\<rparr>) (body_of (day (- 20)) (day 1))))"
    by (simp add: insertReservation_def empty_db_def)
  from createReservation_past_start_passes_tier [OF h, of "ex_user\<lparr>tier := 0\<rparr>" empty_db] h a c i
  show ?thesis by simp
qed

section \<open>The conflict check\<close>

text \<open>
  C2 (as the code has it). For a request that passes the ownership check, the answer is
  Conflict, and nothing is written, exactly when some reservation of that asset that is
  not cancelled overlaps the requested pair of dates in the sense of the operator
  OVERLAPS: each pair is put in order, then taken as the half-open period from its start
  up to, not including, its end, or as one instant when both dates are equal.
\<close>

theorem createReservation_conflict_iff:
  assumes "findAsset db (assetId b) (u_family_id u) \<noteq> []"
  shows "(snd (createReservation ev db u b) = Inl Conflict \<longleftrightarrow>
            (\<exists>r \<in> set (reservations db).
               r_asset_id r = assetId b \<and> status r \<noteq> Cancelled \<and>
               overlaps_timestamp (start_date r) (end_date r) (startDate b) (endDate b))) \<and>
         (snd (createReservation ev db u b) = Inl Conflict \<longrightarrow>
            fst (createReservation ev db u b) = db)"
proof (cases "conflictQuery db (assetId b) (startDate b) (endDate b) = []")
  case True
  then have none: "\<not> (\<exists>r \<in> set (reservations db).
               r_asset_id r = assetId b \<and> status r \<noteq> Cancelled \<and>
               overlaps_timestamp (start_date r) (end_date r) (startDate b) (endDate b))"
    by (simp add: conflictQuery_empty_iff conflicts_with_def)
  have "snd (createReservation ev db u b) \<noteq> Inl Conflict"
    using assms True insertReservation_cases [of db "new_row ev u b"]
    by (auto simp: createReservation_def)
  with none show ?thesis by simp
next
  case False
  then have some: "\<exists>r \<in> set (reservations db).
               r_asset_id r = assetId b \<and> status r \<noteq> Cancelled \<and>
               overlaps_timestamp (start_date r) (end_date r) (startDate b) (endDate b)"
    by (simp add: conflictQuery_empty_iff conflicts_with_def)
  have "createReservation ev db u b = (db, Inl Conflict)"
    using assms False by (simp add: createReservation_def)
  with some show ?thesis by simp
qed

theorem createReservation_conflict_iff_witness:
  "findAsset booked_db (assetId (body_of (day 11) (day 13))) (u_family_id other_user) \<noteq> [] \<and>
   r_asset_id ex_booked = assetId (body_of (day 11) (day 13)) \<and>
   overlaps_timestamp (start_date ex_booked) (end_date ex_booked)
     (startDate (body_of (day 11) (day 13))) (endDate (body_of (day 11) (day 13))) \<and>
   snd (createReservation ex_env booked_db other_user (body_of (day 11) (day 13))) = Inl Conflict \<and>
   fst (createReservation ex_env booked_db other_user (body_of (day 11) (day 13))) = booked_db"
proof -
  have a: "findAsset booked_db (assetId (body_of (day 11) (day 13))) (u_family_id other_user) \<noteq> []"
    by (simp add: example_defs findAsset_def)
  have s: "r_asset_id ex_booked = assetId (body_of (day 11) (day 13))"
    by (simp add: example_defs)
  have o: "overlaps_timestamp (start_date ex_booked) (end_date ex_booked)
     (startDate (body_of (day 11) (day 13))) (endDate (body_of (day 11) (day 13)))"
    by (simp add: example_defs overlaps_timestamp_def msPerDay_def)
  have m: "ex_booked \<in> set (reservations booked_db)" "status ex_booked \<noteq> Cancelled"
    by (simp_all add: example_defs)
  from m s o have e: "\<exists>r \<in> set (reservations booked_db).
               r_asset_id r = assetId (body_of (day 11) (day 13)) \<and> status r \<noteq> Cancelled \<and>
               overlaps_timestamp (start_date r) (end_date r)
                 (startDate (body_of (day 11) (day 13))) (endDate (body_of (day 11) (day 13)))"
    by blast
  from createReservation_conflict_iff [OF a, of ex_env] e
  have "snd (createReservation ex_env booked_db other_user (body_of (day 11) (day 13))) = Inl Conflict"
       "fst (createReservation ex_env booked_db other_user (body_of (day 11) (day 13))) = booked_db"
    by blast+
  with a s o show ?thesis by (intro conjI)
qed

text \<open>
  The inclusive predicate differs at a shared endpoint: the asset is booked from day 10
  to day 12, the request is for day 12 to day 15, the two intervals overlap inclusively,
  and the request is admitted.
\<close>

theorem createReservation_inclusive_conflict_counterexample:
  "findAsset booked_db (assetId (body_of (day 12) (day 15))) (u_family_id other_user) \<noteq> [] \<and>
   ex_booked \<in> set (reservations booked_db) \<and>
   r_asset_id ex_booked = assetId (body_of (day 12) (day 15)) \<and>
   status ex_booked \<noteq> Cancelled \<and>
   end_date ex_booked = startDate (body_of (day 12) (day 15)) \<and>
   spec_inclusive_overlap (startDate (body_of (day 12) (day 15))) (endDate (body_of (day 12) (day 15)))
     (start_date ex_booked) (end_date ex_booked) \<and>
   createReservation ex_env booked_db other_user (body_of (day 12) (day 15))
     = (booked_db\<lparr>reservations := [ex_booked, new_row ex_env other_user (body_of (day 12) (day 15))]\<rparr>,
        Inr (new_row ex_env other_user (body_of (day 12) (day 15)))) \<and>
   snd (createReservation ex_env booked_db other_user (body_of (day 12) (day 15))) \<noteq> Inl Conflict"
  by (simp add: example_defs query_defs spec_inclusive_overlap_def)

section \<open>Cancellation\<close>

lemma filter_cancel_matches_unique:
  assumes "distinct (map r_id rs)" and "r \<in> set rs" and "r_user_id r = uid"
  shows "filter (cancel_matches (r_id r) uid) rs = [r]"
  using assms
proof (induction rs)
  case Nil
  then show ?case by simp
next
  case (Cons x xs)
  have self: "cancel_matches (r_id r) uid r"
    using Cons.prems by (simp add: cancel_matches_def)
  show ?case
  proof (cases "x = r")
    case True
    with Cons.prems have "r_id r \<notin> r_id ` set xs" by simp
    then have "\<forall>y \<in> set xs. \<not> cancel_matches (r_id r) uid y"
      unfolding cancel_matches_def by (metis image_eqI)
    then have "filter (cancel_matches (r_id r) uid) xs = []"
      by (simp add: filter_empty_conv)
    with True self show ?thesis by simp
  next
    case False
    with Cons.prems have mem: "r \<in> set xs" by simp
    with Cons.prems have "r_id x \<notin> r_id ` set xs" by simp
    with mem have "r_id x \<noteq> r_id r" by (metis image_eqI)
    then have "\<not> cancel_matches (r_id r) uid x" by (simp add: cancel_matches_def)
    moreover from Cons mem have "filter (cancel_matches (r_id r) uid) xs = [r]" by simp
    ultimately show ?thesis by simp
  qed
qed

lemma cancel_matches_unique:
  assumes "distinct (map r_id rs)" and "r \<in> set rs" and "x \<in> set rs" and "r_id x = r_id r"
  shows "x = r"
  using assms by (meson distinct_map inj_onD)

lemma cancelReservation_found:
  assumes "filter (cancel_matches rid (u_id u)) (reservations db) = r # rs"
  shows "cancelReservation ev db u rid =
           (db\<lparr>reservations :=
                 map (\<lambda>x. if cancel_matches rid (u_id u) x then cancel_row (db_now ev) x else x)
                     (reservations db)\<rparr>,
            Inr (cancel_row (db_now ev) r))"
  using assms by (simp add: cancelReservation_def)

lemma cancelReservation_missing:
  assumes "filter (cancel_matches rid (u_id u)) (reservations db) = []"
  shows "cancelReservation ev db u rid = (db, Inl NotFound)"
  using assms by (simp add: cancelReservation_def)

text \<open>On values: the row is cancelled and returned exactly when a row with the id and
  the user exists.\<close>

lemma cancelReservation_owner_only:
  "(if \<exists>r \<in> set (reservations db). r_id r = rid \<and> r_user_id r = u_id u
    then \<exists>r \<in> set (reservations db). r_id r = rid \<and> r_user_id r = u_id u \<and>
           cancelReservation ev db u rid =
             (db\<lparr>reservations :=
                   map (\<lambda>x. if r_id x = rid \<and> r_user_id x = u_id u
                             then x\<lparr>status := Cancelled, updated_at := db_now ev\<rparr> else x)
                       (reservations db)\<rparr>,
              Inr (r\<lparr>status := Cancelled, updated_at := db_now ev\<rparr>))
    else cancelReservation ev db u rid = (db, Inl NotFound)) \<and>
   cancelReservation ev db (u\<lparr>tier := t, u_family_id := f\<rparr>) rid = cancelReservation ev db u rid \<and>
   cancelReservation (ev\<lparr>now := n\<rparr>) db u rid = cancelReservation ev db u rid"
proof -
  have indep: "cancelReservation ev db (u\<lparr>tier := t, u_family_id := f\<rparr>) rid = cancelReservation ev db u rid"
       "cancelReservation (ev\<lparr>now := n\<rparr>) db u rid = cancelReservation ev db u rid"
    by (simp_all add: cancelReservation_def split: list.splits)
  show ?thesis
  proof (cases "filter (cancel_matches rid (u_id u)) (reservations db)")
    case Nil
    then have "\<not> (\<exists>r \<in> set (reservations db). r_id r = rid \<and> r_user_id r = u_id u)"
      by (auto simp: filter_empty_conv cancel_matches_def)
    with cancelReservation_missing [OF Nil] indep show ?thesis by simp
  next
    case (Cons r rs)
    then have "r \<in> set (filter (cancel_matches rid (u_id u)) (reservations db))" by simp
    then have r: "r \<in> set (reservations db)" "r_id r = rid" "r_user_id r = u_id u"
      by (simp_all add: cancel_matches_def)
    from cancelReservation_found [OF Cons, of ev]
    have "cancelReservation ev db u rid =
             (db\<lparr>reservations :=
                   map (\<lambda>x. if r_id x = rid \<and> r_user_id x = u_id u
                             then x\<lparr>status := Cancelled, updated_at := db_now ev\<rparr> else x)
                       (reservations db)\<rparr>,
              Inr (r\<lparr>status := Cancelled, updated_at := db_now ev\<rparr>))"
      by (simp add: cancel_matches_def cancel_row_def)
    with r have "\<exists>r \<in> set (reservations db). r_id r = rid \<and> r_user_id r = u_id u \<and>
           cancelReservation ev db u rid =
             (db\<lparr>reservations :=
                   map (\<lambda>x. if r_id x = rid \<and> r_user_id x = u_id u
                             then x\<lparr>status := Cancelled, updated_at := db_now ev\<rparr> else x)
                       (reservations db)\<rparr>,
              Inr (r\<lparr>status := Cancelled, updated_at := db_now ev\<rparr>))"
      by blast
    moreover from r have "\<exists>r \<in> set (reservations db). r_id r = rid \<and> r_user_id r = u_id u" by blast
    ultimately show ?thesis using indep by simp
  qed
qed

text \<open>
  C8. In a table whose ids are distinct, cancelling a reservation of the requester that
  is already cancelled succeeds: it returns that reservation, still cancelled, with only
  the update time changed, and no other row changes.
\<close>

theorem cancelReservation_idempotent:
  assumes "distinct (map r_id (reservations db))"
      and "r \<in> set (reservations db)" and "r_id r = rid" and "r_user_id r = u_id u"
      and "status r = Cancelled"
  shows "cancelReservation ev db u rid =
           (db\<lparr>reservations :=
                 map (\<lambda>x. if x = r then r\<lparr>updated_at := db_now ev\<rparr> else x) (reservations db)\<rparr>,
            Inr (r\<lparr>updated_at := db_now ev\<rparr>)) \<and>
         status (r\<lparr>updated_at := db_now ev\<rparr>) = Cancelled"
proof -
  have f: "filter (cancel_matches rid (u_id u)) (reservations db) = [r]"
    using filter_cancel_matches_unique [OF assms(1,2,4)] assms(3) by simp
  have c: "cancel_row (db_now ev) r = r\<lparr>updated_at := db_now ev\<rparr>"
    using assms(5) by (cases r) (simp add: cancel_row_def)
  have m: "map (\<lambda>x. if cancel_matches rid (u_id u) x then cancel_row (db_now ev) x else x)
               (reservations db)
         = map (\<lambda>x. if x = r then r\<lparr>updated_at := db_now ev\<rparr> else x) (reservations db)"
  proof (rule map_cong [OF refl])
    fix x assume x: "x \<in> set (reservations db)"
    show "(if cancel_matches rid (u_id u) x then cancel_row (db_now ev) x else x)
        = (if x = r then r\<lparr>updated_at := db_now ev\<rparr> else x)"
    proof (cases "cancel_matches rid (u_id u) x")
      case True
      then have "r_id x = r_id r" using assms(3) by (simp add: cancel_matches_def)
      with cancel_matches_unique [OF assms(1,2) x] have "x = r" by simp
      with True c show ?thesis by simp
    next
      case False
      then have "x \<noteq> r" using assms(3,4) by (auto simp: cancel_matches_def)
      with False show ?thesis by simp
    qed
  qed
  from cancelReservation_found [OF f, of ev] c m assms(5) show ?thesis by simp
qed

theorem cancelReservation_idempotent_witness:
  "distinct (map r_id (reservations cancelled_db)) \<and>
   ex_booked\<lparr>status := Cancelled\<rparr> \<in> set (reservations cancelled_db) \<and>
   r_id (ex_booked\<lparr>status := Cancelled\<rparr>) = 100 \<and>
   r_user_id (ex_booked\<lparr>status := Cancelled\<rparr>) = u_id ex_user \<and>
   status (ex_booked\<lparr>status := Cancelled\<rparr>) = Cancelled \<and>
   cancelReservation ex_env cancelled_db ex_user 100
     = (cancelled_db\<lparr>reservations := [ex_booked\<lparr>status := Cancelled, updated_at := 5\<rparr>]\<rparr>,
        Inr (ex_booked\<lparr>status := Cancelled, updated_at := 5\<rparr>))"
proof -
  have d: "distinct (map r_id (reservations cancelled_db))" by (simp add: example_defs)
  have m: "ex_booked\<lparr>status := Cancelled\<rparr> \<in> set (reservations cancelled_db)"
    by (simp add: cancelled_db_def)
  have i: "r_id (ex_booked\<lparr>status := Cancelled\<rparr>) = 100" by (simp add: ex_booked_def)
  have o: "r_user_id (ex_booked\<lparr>status := Cancelled\<rparr>) = u_id ex_user"
    by (simp add: ex_booked_def ex_user_def)
  have c: "status (ex_booked\<lparr>status := Cancelled\<rparr>) = Cancelled" by simp
  from cancelReservation_idempotent [OF d m i o c, of ex_env]
  have "cancelReservation ex_env cancelled_db ex_user 100
     = (cancelled_db\<lparr>reservations := [ex_booked\<lparr>status := Cancelled, updated_at := 5\<rparr>]\<rparr>,
        Inr (ex_booked\<lparr>status := Cancelled, updated_at := 5\<rparr>))"
    by (simp add: cancelled_db_def ex_env_def)
  with d m i o c show ?thesis by (intro conjI)
qed

section \<open>No two live reservations of an asset overlap\<close>

lemma conflicts_with_new_row:
  "clash_overlaps x (new_row ev u b) = conflicts_with (assetId b) (startDate b) (endDate b) x"
  by (auto simp: clash_overlaps_def conflicts_with_def new_row_def)

lemma clash_overlaps_sym: "clash_overlaps r x = clash_overlaps x r"
  using overlaps_timestamp_sym [of "start_date r" "end_date r" "start_date x" "end_date x"]
  by (auto simp: clash_overlaps_def)

lemma no_conflicts_append:
  "no_conflicts c (rs @ [r]) = (no_conflicts c rs \<and> (\<forall>x \<in> set rs. \<not> c x r))"
  by (induction rs) auto

lemma no_conflicts_map:
  assumes "\<And>a b. c (f a) (f b) \<Longrightarrow> c a b"
  shows "no_conflicts c rs \<Longrightarrow> no_conflicts c (map f rs)"
  using assms by (induction rs) auto

lemma no_conflicts_nth:
  "no_conflicts c rs \<Longrightarrow> i < j \<Longrightarrow> j < length rs \<Longrightarrow> \<not> c (rs ! i) (rs ! j)"
proof (induction rs arbitrary: i j)
  case Nil
  then show ?case by simp
next
  case (Cons r rs)
  show ?case
  proof (cases i)
    case 0
    with Cons.prems show ?thesis by (cases j) auto
  next
    case (Suc i')
    with Cons.prems obtain j' where "j = Suc j'" by (cases j) auto
    with Suc Cons show ?thesis by auto
  qed
qed

text \<open>An admitted row passed the conflict query, so it clashes with no row of the table.\<close>

lemma createReservation_no_conflicts:
  assumes "no_conflicts clash_overlaps (reservations db)"
  shows "no_conflicts clash_overlaps (reservations (fst (createReservation ev db u b)))"
proof (cases "createReservation ev db u b = insertReservation db (new_row ev u b) \<and>
              conflictQuery db (assetId b) (startDate b) (endDate b) = []")
  case True
  then have free: "\<forall>x \<in> set (reservations db). \<not> clash_overlaps x (new_row ev u b)"
    by (simp add: conflictQuery_empty_iff conflicts_with_new_row)
  from insertReservation_cases [of db "new_row ev u b"] True assms free show ?thesis
    by (auto simp: no_conflicts_append)
next
  case False
  then have "fst (createReservation ev db u b) = db"
    by (auto simp: createReservation_def split: if_splits)
  with assms show ?thesis by simp
qed

text \<open>A cancelled row clashes with nothing, and the other rows are untouched.\<close>

lemma cancel_clash:
  "clash_overlaps (if cancel_matches rid uid a then cancel_row t a else a)
                  (if cancel_matches rid uid b then cancel_row t b else b)
   \<Longrightarrow> clash_overlaps a b"
  by (auto simp: clash_overlaps_def cancel_row_def split: if_splits)

lemma cancelReservation_no_conflicts:
  assumes "no_conflicts clash_overlaps (reservations db)"
  shows "no_conflicts clash_overlaps (reservations (fst (cancelReservation ev db u rid)))"
proof (cases "filter (cancel_matches rid (u_id u)) (reservations db)")
  case Nil
  with assms show ?thesis by (simp add: cancelReservation_def)
next
  case (Cons r rs)
  have "no_conflicts clash_overlaps
          (map (\<lambda>x. if cancel_matches rid (u_id u) x then cancel_row (db_now ev) x else x)
               (reservations db))"
    using assms by (rule no_conflicts_map [rotated]) (rule cancel_clash)
  with Cons show ?thesis by (simp add: cancelReservation_def)
qed

lemma apply_operation_no_conflicts:
  "no_conflicts clash_overlaps (reservations db) \<Longrightarrow>
   no_conflicts clash_overlaps (reservations (apply_operation op db))"
  by (cases op) (simp_all add: createReservation_no_conflicts cancelReservation_no_conflicts)

lemma run_no_conflicts:
  "no_conflicts clash_overlaps (reservations db) \<Longrightarrow>
   no_conflicts clash_overlaps (reservations (run ops db))"
  unfolding run_def
  by (induction ops arbitrary: db) (simp_all add: apply_operation_no_conflicts)

lemma run_ex_ops:
  "reservations (run ex_ops empty_db) =
     [(new_row ex_env ex_user (body_of (day 10) (day 12)))\<lparr>status := Cancelled, updated_at := 8\<rparr>,
      new_row ex_env2 other_user (body_of (day 12) (day 15)),
      new_row (ex_env2\<lparr>new_id := 103\<rparr>) other_user (body_of (day 11) (day 12))]"
  by (simp add: run_def example_defs query_defs)

lemma run_adjacent_ops:
  "reservations (run adjacent_ops empty_db) =
     [new_row ex_env ex_user (body_of (day 10) (day 12)),
      new_row ex_env2 other_user (body_of (day 12) (day 15))]"
  by (simp add: run_def example_defs query_defs)

text \<open>
  C1 (as the code has it). After any sequence of creations and cancellations served one
  after the other, starting from a datastore without reservations, no two different rows
  of one asset that are both not cancelled overlap in the sense of the operator OVERLAPS
  of the conflict query (half-open periods, each pair of dates put in order).
\<close>

theorem run_keeps_overlaps_free:
  assumes "reservations db = []"
  shows "no_conflicts clash_overlaps (reservations (run ops db)) \<and>
         (\<forall>i j. i < length (reservations (run ops db)) \<longrightarrow>
                j < length (reservations (run ops db)) \<longrightarrow> i \<noteq> j \<longrightarrow>
                r_asset_id (reservations (run ops db) ! i) = r_asset_id (reservations (run ops db) ! j) \<longrightarrow>
                status (reservations (run ops db) ! i) \<noteq> Cancelled \<longrightarrow>
                status (reservations (run ops db) ! j) \<noteq> Cancelled \<longrightarrow>
                \<not> overlaps_timestamp
                     (start_date (reservations (run ops db) ! i)) (end_date (reservations (run ops db) ! i))
                     (start_date (reservations (run ops db) ! j)) (end_date (reservations (run ops db) ! j)))"
proof -
  let ?rs = "reservations (run ops db)"
  have inv: "no_conflicts clash_overlaps ?rs"
    using assms by (intro run_no_conflicts) simp
  have "\<not> clash_overlaps (?rs ! i) (?rs ! j)" if "i < length ?rs" "j < length ?rs" "i \<noteq> j" for i j
  proof (cases "i < j")
    case True
    with inv that show ?thesis by (simp add: no_conflicts_nth)
  next
    case False
    with that have "j < i" by simp
    with inv that have "\<not> clash_overlaps (?rs ! j) (?rs ! i)" by (simp add: no_conflicts_nth)
    then show ?thesis by (simp add: clash_overlaps_sym)
  qed
  then have "\<forall>i j. i < length ?rs \<longrightarrow> j < length ?rs \<longrightarrow> i \<noteq> j \<longrightarrow> \<not> clash_overlaps (?rs ! i) (?rs ! j)"
    by blast
  then have "\<forall>i j. i < length ?rs \<longrightarrow> j < length ?rs \<longrightarrow> i \<noteq> j \<longrightarrow>
                r_asset_id (?rs ! i) = r_asset_id (?rs ! j) \<longrightarrow>
                status (?rs ! i) \<noteq> Cancelled \<longrightarrow> status (?rs ! j) \<noteq> Cancelled \<longrightarrow>
                \<not> overlaps_timestamp (start_date (?rs ! i)) (end_date (?rs ! i))
                                       (start_date (?rs ! j)) (end_date (?rs ! j))"
    unfolding clash_overlaps_def by blast
  with inv show ?thesis by (rule conjI)
qed

theorem run_keeps_overlaps_free_witness:
  "reservations empty_db = [] \<and>
   no_conflicts clash_overlaps (reservations (run ex_ops empty_db)) \<and>
   length (reservations (run ex_ops empty_db)) = 3"
proof -
  have e: "reservations empty_db = []" by (simp add: empty_db_def)
  from run_keeps_overlaps_free [OF e, of ex_ops]
  have "no_conflicts clash_overlaps (reservations (run ex_ops empty_db))" by (rule conjunct1)
  with e run_ex_ops show ?thesis by simp
qed

text \<open>
  With the inclusive predicate the invariant fails: a booking from day 10 to day 12 and
  then one from day 12 to day 15 of the same asset are both admitted, and the two
  confirmed rows share day 12.
\<close>

theorem run_inclusive_overlap_counterexample:
  "reservations empty_db = [] \<and>
   reservations (run adjacent_ops empty_db) =
     [new_row ex_env ex_user (body_of (day 10) (day 12)),
      new_row ex_env2 other_user (body_of (day 12) (day 15))] \<and>
   r_asset_id (new_row ex_env ex_user (body_of (day 10) (day 12)))
     = r_asset_id (new_row ex_env2 other_user (body_of (day 12) (day 15))) \<and>
   status (new_row ex_env ex_user (body_of (day 10) (day 12))) \<noteq> Cancelled \<and>
   status (new_row ex_env2 other_user (body_of (day 12) (day 15))) \<noteq> Cancelled \<and>
   spec_inclusive_overlap
     (start_date (new_row ex_env ex_user (body_of (day 10) (day 12))))
     (end_date (new_row ex_env ex_user (body_of (day 10) (day 12))))
     (start_date (new_row ex_env2 other_user (body_of (day 12) (day 15))))
     (end_date (new_row ex_env2 other_user (body_of (day 12) (day 15)))) \<and>
   \<not> no_conflicts clash_inclusive (reservations (run adjacent_ops empty_db))"
proof -
  have e: "reservations empty_db = []" by (simp add: empty_db_def)
  have rest: "r_asset_id (new_row ex_env ex_user (body_of (day 10) (day 12)))
     = r_asset_id (new_row ex_env2 other_user (body_of (day 12) (day 15))) \<and>
   status (new_row ex_env ex_user (body_of (day 10) (day 12))) \<noteq> Cancelled \<and>
   status (new_row ex_env2 other_user (body_of (day 12) (day 15))) \<noteq> Cancelled \<and>
   spec_inclusive_overlap
     (start_date (new_row ex_env ex_user (body_of (day 10) (day 12))))
     (end_date (new_row ex_env ex_user (body_of (day 10) (day 12))))
     (start_date (new_row ex_env2 other_user (body_of (day 12) (day 15))))
     (end_date (new_row ex_env2 other_user (body_of (day 12) (day 15))))"
    by (simp add: new_row_def body_of_def spec_inclusive_overlap_def day_def msPerDay_def)
  then have "\<not> no_conflicts clash_inclusive
       [new_row ex_env ex_user (body_of (day 10) (day 12)),
        new_row ex_env2 other_user (body_of (day 12) (day 15))]"
    by (simp add: clash_inclusive_def)
  with e rest run_adjacent_ops show ?thesis by simp
qed

section \<open>Two requests in flight\<close>

text \<open>Served without another request in between, the three queries are
  \<open>createReservation\<close>.\<close>

lemma interleave_sequential:
  "interleave [True, True, True] rq rq' (db, AwaitAsset, h) =
     (fst (createReservation (rq_env rq) db (rq_user rq) (rq_body rq)),
      Responded (snd (createReservation (rq_env rq) db (rq_user rq) (rq_body rq))), h)"
  by (simp add: createReservation_def insertReservation_def)

text \<open>
  C4. The conflict query and the insert are separate queries. Two requests for the same
  asset and for overlapping intervals, each served its asset query, then each its
  conflict query, then each its insert, are both admitted, and the table then holds two
  confirmed rows of that asset that overlap; served one after the other, the second is
  answered Conflict.
\<close>

theorem concurrent_create_race:
  "interleave [True, False, True, False, True, False] race_A race_B (empty_db, AwaitAsset, AwaitAsset)
     = (empty_db\<lparr>reservations :=
                   [new_row (rq_env race_A) (rq_user race_A) (rq_body race_A),
                    new_row (rq_env race_B) (rq_user race_B) (rq_body race_B)]\<rparr>,
        Responded (Inr (new_row (rq_env race_A) (rq_user race_A) (rq_body race_A))),
        Responded (Inr (new_row (rq_env race_B) (rq_user race_B) (rq_body race_B)))) \<and>
   status (new_row (rq_env race_A) (rq_user race_A) (rq_body race_A)) = Confirmed \<and>
   status (new_row (rq_env race_B) (rq_user race_B) (rq_body race_B)) = Confirmed \<and>
   r_asset_id (new_row (rq_env race_A) (rq_user race_A) (rq_body race_A))
     = r_asset_id (new_row (rq_env race_B) (rq_user race_B) (rq_body race_B)) \<and>
   overlaps_timestamp
     (startDate (rq_body race_A)) (endDate (rq_body race_A))
     (startDate (rq_body race_B)) (endDate (rq_body race_B)) \<and>
   spec_inclusive_overlap
     (startDate (rq_body race_A)) (endDate (rq_body race_A))
     (startDate (rq_body race_B)) (endDate (rq_body race_B)) \<and>
   clash_overlaps (new_row (rq_env race_A) (rq_user race_A) (rq_body race_A))
                  (new_row (rq_env race_B) (rq_user race_B) (rq_body race_B)) \<and>
   interleave [True, True, True, False, False, False] race_A race_B (empty_db, AwaitAsset, AwaitAsset)
     = (empty_db\<lparr>reservations := [new_row (rq_env race_A) (rq_user race_A) (rq_body race_A)]\<rparr>,
        Responded (Inr (new_row (rq_env race_A) (rq_user race_A) (rq_body race_A))),
        Responded (Inl Conflict))"
  by (simp add: example_defs query_defs spec_inclusive_overlap_def clash_overlaps_def)

section \<open>Inverted intervals\<close>

text \<open>
  C9. No check compares the start of a request with its end: there is a request whose end
  is before its start that passes the ownership, the conflict and the tier check and
  whose row is inserted as it is; and the conflict query gives the same rows for the two
  dates in either order.
\<close>

theorem createReservation_inverted_interval:
  "(\<exists>b. endDate b < startDate b \<and>
        findAsset booked_db (assetId b) (u_family_id ex_user) \<noteq> [] \<and>
        conflictQuery booked_db (assetId b) (startDate b) (endDate b) = [] \<and>
        \<not> daysAhead (startDate b) (now ex_env) > maxDaysAhead (tier ex_user) \<and>
        createReservation ex_env booked_db ex_user b
          = (booked_db\<lparr>reservations := reservations booked_db @ [new_row ex_env ex_user b]\<rparr>,
             Inr (new_row ex_env ex_user b)) \<and>
        end_date (new_row ex_env ex_user b) < start_date (new_row ex_env ex_user b)) \<and>
   conflictQuery db aid s e = conflictQuery db aid e s"
proof -
  have "conflicts_with aid s e = conflicts_with aid e s"
    by (rule ext) (simp add: conflicts_with_def overlaps_timestamp_swap)
  then have sym: "conflictQuery db aid s e = conflictQuery db aid e s"
    by (simp add: conflictQuery_def)
  let ?b = "body_of (day 20) (day 15)"
  have "endDate ?b < startDate ?b \<and>
        findAsset booked_db (assetId ?b) (u_family_id ex_user) \<noteq> [] \<and>
        conflictQuery booked_db (assetId ?b) (startDate ?b) (endDate ?b) = [] \<and>
        \<not> daysAhead (startDate ?b) (now ex_env) > maxDaysAhead (tier ex_user) \<and>
        createReservation ex_env booked_db ex_user ?b
          = (booked_db\<lparr>reservations := reservations booked_db @ [new_row ex_env ex_user ?b]\<rparr>,
             Inr (new_row ex_env ex_user ?b)) \<and>
        end_date (new_row ex_env ex_user ?b) < start_date (new_row ex_env ex_user ?b)"
    by (simp add: example_defs query_defs)
  then have "\<exists>b. endDate b < startDate b \<and>
        findAsset booked_db (assetId b) (u_family_id ex_user) \<noteq> [] \<and>
        conflictQuery booked_db (assetId b) (startDate b) (endDate b) = [] \<and>
        \<not> daysAhead (startDate b) (now ex_env) > maxDaysAhead (tier ex_user) \<and>
        createReservation ex_env booked_db ex_user b
          = (booked_db\<lparr>reservations := reservations booked_db @ [new_row ex_env ex_user b]\<rparr>,
             Inr (new_row ex_env ex_user b)) \<and>
        end_date (new_row ex_env ex_user b) < start_date (new_row ex_env ex_user b)"
    by (rule exI)
  with sym show ?thesis by (rule conjI [rotated])
qed

section \<open>The request as it arrives\<close>

text \<open>On a body of values the handler is \<open>createReservation\<close>, and on an \<open>:id\<close> that
  is a UUID the cancellation is \<open>cancelReservation\<close>.\<close>

lemmas request_defs =
  postReservations_def patchReservationCancel_def conflictQuery_param_def
  conflicts_with_param_def overlaps_timestamp_null_def insert_params_def raw_of_def
  malformed_id_body_def array_metadata_body_def unparsed_start_body_def

lemma conflictQuery_param_values:
  "conflictQuery_param db aid (Some s) (Some e) = conflictQuery db aid s e"
proof -
  have "conflicts_with_param aid (Some s) (Some e) = conflicts_with aid s e"
    by (rule ext) (simp add: conflicts_with_param_def conflicts_with_def overlaps_timestamp_null_def)
  then show ?thesis by (simp add: conflictQuery_param_def conflictQuery_def)
qed

lemma insert_params_raw_of: "insert_params (raw_of b) = Some b"
  by (cases b) (auto simp: insert_params_def raw_of_def split: option.splits)

lemma postReservations_raw_of:
  "postReservations ev db u (raw_of b) = createReservation ev db u b"
proof -
  have f: "pg_assetId (raw_of b) = Val (assetId b)" "pg_startDate (raw_of b) = Val (startDate b)"
    "pg_endDate (raw_of b) = Val (endDate b)" "js_startDate (raw_of b) = Some (startDate b)"
    by (simp_all add: raw_of_def)
  show ?thesis
    by (simp add: postReservations_def createReservation_def f conflictQuery_param_values
        insert_params_raw_of)
qed

lemma patchReservationCancel_value:
  "patchReservationCancel ev db u (Val rid) = cancelReservation ev db u rid"
  by (simp add: patchReservationCancel_def)

text \<open>
  C5 (as the code has it). When no asset has the asset id of the request and the family of
  the requester (the id is unknown, the asset is another family's, the id is null or the
  requester has no family), creating a reservation leaves the datastore as it was and
  answers NotFound, whatever the dates, readable or not, the tier and the existing
  reservations are: the ownership query is the first. The one exception is an asset id
  that is not a UUID: that query throws on it, and the answer is the internal failure.
\<close>

theorem postReservations_foreign_asset:
  assumes "\<not> (\<exists>a \<in> set (assets db).
                 Val (a_id a) = pg_assetId rb \<and> Some (a_family_id a) = u_family_id u)"
  shows "postReservations ev db u rb =
           (db, Inl (if pg_assetId rb = Rejected then InternalFailure else NotFound))"
proof (cases "pg_assetId rb")
  case Rejected
  then show ?thesis by (simp add: postReservations_def)
next
  case Null
  then show ?thesis by (simp add: postReservations_def)
next
  case (Val aid)
  with assms have "findAsset db aid (u_family_id u) = []"
    by (auto simp: findAsset_empty_iff)
  with Val show ?thesis by (simp add: postReservations_def)
qed

theorem postReservations_foreign_asset_witness:
  "\<not> (\<exists>a \<in> set (assets booked_db).
         Val (a_id a) = pg_assetId ((raw_of (body_of (day 45) (day 46)))\<lparr>pg_startDate := Rejected\<rparr>) \<and>
         Some (a_family_id a) = u_family_id stranger) \<and>
   postReservations ex_env booked_db stranger
       ((raw_of (body_of (day 45) (day 46)))\<lparr>pg_startDate := Rejected\<rparr>)
     = (booked_db, Inl NotFound)"
proof -
  have h: "\<not> (\<exists>a \<in> set (assets booked_db).
         Val (a_id a) = pg_assetId ((raw_of (body_of (day 45) (day 46)))\<lparr>pg_startDate := Rejected\<rparr>) \<and>
         Some (a_family_id a) = u_family_id stranger)"
    by (simp add: example_defs raw_of_def)
  have v: "pg_assetId ((raw_of (body_of (day 45) (day 46)))\<lparr>pg_startDate := Rejected\<rparr>) \<noteq> Rejected"
    by (simp add: raw_of_def)
  from postReservations_foreign_asset [OF h, of ex_env] v h show ?thesis by simp
qed

text \<open>
  The asset id \<open>abc\<close> names no asset of the family, and the answer is the internal
  failure, not NotFound.
\<close>

theorem postReservations_malformed_asset_id_counterexample:
  "pg_assetId malformed_id_body = Rejected \<and>
   \<not> (\<exists>a \<in> set (assets booked_db).
         Val (a_id a) = pg_assetId malformed_id_body \<and> Some (a_family_id a) = u_family_id ex_user) \<and>
   postReservations ex_env booked_db ex_user malformed_id_body = (booked_db, Inl InternalFailure) \<and>
   snd (postReservations ex_env booked_db ex_user malformed_id_body) \<noteq> Inl NotFound"
  by (simp add: request_defs example_defs)

lemma postReservations_checked:
  assumes "pg_assetId rb = Val aid" and "findAsset db aid (u_family_id u) \<noteq> []"
      and "pg_startDate rb \<noteq> Rejected" and "pg_endDate rb \<noteq> Rejected"
      and "conflictQuery_param db aid (param_value (pg_startDate rb)) (param_value (pg_endDate rb)) = []"
  shows "postReservations ev db u rb =
           (if (case js_startDate rb of
                  None \<Rightarrow> False
                | Some s \<Rightarrow> daysAhead s (now ev) > maxDaysAhead (tier u))
            then (db, Inl (Forbidden (tier u) (maxDaysAhead (tier u))))
            else (case insert_params rb of
                    None \<Rightarrow> (db, Inl InternalFailure)
                  | Some b \<Rightarrow> insertReservation db (new_row ev u b)))"
  using assms by (simp add: postReservations_def)

text \<open>
  C3 (as the code has it). For a request that passes the ownership and the conflict check
  and whose start JavaScript reads as a date, the days ahead are the ceiling of
  (start - now) / 86400000 ms for that reading, and the limit is 365, 180, 90, 30 for the
  tiers 1 to 4 and 30 for any other tier. The request is answered Forbidden, with the
  tier and the limit, and nothing is written, exactly when the days ahead exceed the
  limit. Otherwise the insert is sent: when the datastore takes it (no parameter is
  refused, the dates are not null, the generated identifier is not yet a primary key) the
  row is created with status confirmed and returned; when it does not, the answer is the
  internal failure and nothing is written.
\<close>

theorem postReservations_tier_horizon:
  assumes "pg_assetId rb = Val aid" and "findAsset db aid (u_family_id u) \<noteq> []"
      and "pg_startDate rb \<noteq> Rejected" and "pg_endDate rb \<noteq> Rejected"
      and "conflictQuery_param db aid (param_value (pg_startDate rb)) (param_value (pg_endDate rb)) = []"
      and "js_startDate rb = Some s"
  shows "daysAhead s (now ev) = \<lceil>real_of_int (s - now ev) / 86400000\<rceil> \<and>
         maxDaysAhead (tier u)
           = (if tier u = 1 then 365 else if tier u = 2 then 180 else if tier u = 3 then 90
              else if tier u = 4 then 30 else 30) \<and>
         (if daysAhead s (now ev) > maxDaysAhead (tier u)
          then postReservations ev db u rb = (db, Inl (Forbidden (tier u) (maxDaysAhead (tier u))))
          else (\<forall>t l. snd (postReservations ev db u rb) \<noteq> Inl (Forbidden t l)) \<and>
               (case insert_params rb of
                  None \<Rightarrow> postReservations ev db u rb = (db, Inl InternalFailure)
                | Some b \<Rightarrow>
                    if new_id ev \<notin> r_id ` set (reservations db)
                    then postReservations ev db u rb
                           = (db\<lparr>reservations := reservations db @ [new_row ev u b]\<rparr>,
                              Inr (new_row ev u b)) \<and>
                         status (new_row ev u b) = Confirmed
                    else postReservations ev db u rb = (db, Inl InternalFailure)))"
proof -
  have d: "daysAhead s (now ev) = \<lceil>real_of_int (s - now ev) / 86400000\<rceil>"
    using daysAhead_ceiling [of s "now ev"] by (simp add: msPerDay_def)
  have m: "maxDaysAhead (tier u)
           = (if tier u = 1 then 365 else if tier u = 2 then 180 else if tier u = 3 then 90
              else if tier u = 4 then 30 else 30)"
    by (simp add: maxDaysAhead_table)
  note p = postReservations_checked [OF assms(1-5), of ev]
  have r: "(if daysAhead s (now ev) > maxDaysAhead (tier u)
          then postReservations ev db u rb = (db, Inl (Forbidden (tier u) (maxDaysAhead (tier u))))
          else (\<forall>t l. snd (postReservations ev db u rb) \<noteq> Inl (Forbidden t l)) \<and>
               (case insert_params rb of
                  None \<Rightarrow> postReservations ev db u rb = (db, Inl InternalFailure)
                | Some b \<Rightarrow>
                    if new_id ev \<notin> r_id ` set (reservations db)
                    then postReservations ev db u rb
                           = (db\<lparr>reservations := reservations db @ [new_row ev u b]\<rparr>,
                              Inr (new_row ev u b)) \<and>
                         status (new_row ev u b) = Confirmed
                    else postReservations ev db u rb = (db, Inl InternalFailure)))"
  proof (cases "daysAhead s (now ev) > maxDaysAhead (tier u)")
    case True
    with p assms(6) show ?thesis by simp
  next
    case False
    show ?thesis
    proof (cases "insert_params rb")
      case None
      with p assms(6) False show ?thesis by simp
    next
      case (Some b)
      have st: "status (new_row ev u b) = Confirmed" by (simp add: new_row_def)
      have id: "r_id (new_row ev u b) = new_id ev" by (simp add: new_row_def)
      from p assms(6) False Some
      have e: "postReservations ev db u rb = insertReservation db (new_row ev u b)" by simp
      show ?thesis
      proof (cases "new_id ev \<in> r_id ` set (reservations db)")
        case True
        with e id have "postReservations ev db u rb = (db, Inl InternalFailure)"
          by (simp add: insertReservation_def)
        with True False Some show ?thesis by simp
      next
        case fresh: False
        with e id have "postReservations ev db u rb
                           = (db\<lparr>reservations := reservations db @ [new_row ev u b]\<rparr>,
                              Inr (new_row ev u b))"
          by (simp add: insertReservation_def)
        with fresh False Some st show ?thesis by simp
      qed
    qed
  qed
  from d m r show ?thesis by (intro conjI)
qed

theorem postReservations_tier_horizon_witness:
  "postReservations ex_env booked_db ex_user (raw_of (body_of (day 45) (day 46)))
     = (booked_db, Inl (Forbidden 4 30)) \<and>
   postReservations ex_env booked_db ex_user (raw_of (body_of (day 20) (day 22)))
     = (booked_db\<lparr>reservations := [ex_booked, new_row ex_env ex_user (body_of (day 20) (day 22))]\<rparr>,
        Inr (new_row ex_env ex_user (body_of (day 20) (day 22)))) \<and>
   postReservations ex_env booked_db ex_user array_metadata_body = (booked_db, Inl InternalFailure)"
proof -
  let ?far = "raw_of (body_of (day 45) (day 46))"
  let ?near = "raw_of (body_of (day 20) (day 22))"
  have own: "findAsset booked_db 1 (u_family_id ex_user) \<noteq> []"
    by (simp add: example_defs findAsset_def)
  have t: "tier ex_user = 4" "maxDaysAhead 4 = 30"
    by (simp_all add: ex_user_def maxDaysAhead_def)
  have f: "new_id ex_env \<notin> r_id ` set (reservations booked_db)" by (simp add: example_defs)
  have d: "daysAhead (day 45) (now ex_env) = 45" "daysAhead (day 20) (now ex_env) = 20"
    by (simp_all add: example_defs daysAhead_def msPerDay_def)
  have a: "pg_assetId ?far = Val 1" "pg_startDate ?far \<noteq> Rejected" "pg_endDate ?far \<noteq> Rejected"
    "conflictQuery_param booked_db 1 (param_value (pg_startDate ?far)) (param_value (pg_endDate ?far)) = []"
    "js_startDate ?far = Some (day 45)"
    by (simp_all add: request_defs example_defs query_defs)
  have b: "pg_assetId ?near = Val 1" "pg_startDate ?near \<noteq> Rejected" "pg_endDate ?near \<noteq> Rejected"
    "conflictQuery_param booked_db 1 (param_value (pg_startDate ?near)) (param_value (pg_endDate ?near)) = []"
    "js_startDate ?near = Some (day 20)"
    by (simp_all add: request_defs example_defs query_defs)
  have c: "pg_assetId array_metadata_body = Val 1" "pg_startDate array_metadata_body \<noteq> Rejected"
    "pg_endDate array_metadata_body \<noteq> Rejected"
    "conflictQuery_param booked_db 1 (param_value (pg_startDate array_metadata_body))
       (param_value (pg_endDate array_metadata_body)) = []"
    "js_startDate array_metadata_body = Some (day 20)"
    by (simp_all add: request_defs example_defs query_defs)
  have ip: "insert_params ?near = Some (body_of (day 20) (day 22))"
           "insert_params array_metadata_body = None"
    by (simp_all add: insert_params_raw_of array_metadata_body_def raw_of_def insert_params_def body_of_def)
  have rs: "reservations booked_db @ [new_row ex_env ex_user (body_of (day 20) (day 22))]
              = [ex_booked, new_row ex_env ex_user (body_of (day 20) (day 22))]"
    by (simp add: booked_db_def)
  from postReservations_tier_horizon [OF a(1) own a(2-5), of ex_env] d t
  have 1: "postReservations ex_env booked_db ex_user ?far = (booked_db, Inl (Forbidden 4 30))"
    by simp
  from postReservations_tier_horizon [OF b(1) own b(2-5), of ex_env] d t f ip
  have "postReservations ex_env booked_db ex_user ?near
     = (booked_db\<lparr>reservations := reservations booked_db @ [new_row ex_env ex_user (body_of (day 20) (day 22))]\<rparr>,
        Inr (new_row ex_env ex_user (body_of (day 20) (day 22))))"
    by simp
  with rs have 2: "postReservations ex_env booked_db ex_user ?near
     = (booked_db\<lparr>reservations := [ex_booked, new_row ex_env ex_user (body_of (day 20) (day 22))]\<rparr>,
        Inr (new_row ex_env ex_user (body_of (day 20) (day 22))))"
    by simp
  from postReservations_tier_horizon [OF c(1) own c(2-5), of ex_env] d t ip
  have 3: "postReservations ex_env booked_db ex_user array_metadata_body = (booked_db, Inl InternalFailure)"
    by simp
  from 1 2 3 show ?thesis by (intro conjI)
qed

text \<open>
  Two requests of a tier 4 member that pass the ownership and the conflict check. The
  first starts 20 days ahead and carries the array \<open>[1,2]\<close> as metadata: it is not
  Forbidden, and no reservation is created. The second has a start that PostgreSQL reads
  as day 1155 and JavaScript as \<open>NaN\<close>: it is 1155 days ahead, the limit is 30, and its
  row is created.
\<close>

theorem postReservations_tier_horizon_counterexample:
  "pg_assetId array_metadata_body = Val 1 \<and>
   findAsset booked_db 1 (u_family_id ex_user) \<noteq> [] \<and>
   conflictQuery_param booked_db 1 (param_value (pg_startDate array_metadata_body))
     (param_value (pg_endDate array_metadata_body)) = [] \<and>
   js_startDate array_metadata_body = Some (day 20) \<and>
   pg_startDate array_metadata_body = Val (day 20) \<and>
   \<not> daysAhead (day 20) (now ex_env) > maxDaysAhead (tier ex_user) \<and>
   new_id ex_env \<notin> r_id ` set (reservations booked_db) \<and>
   postReservations ex_env booked_db ex_user array_metadata_body = (booked_db, Inl InternalFailure) \<and>
   pg_assetId unparsed_start_body = Val 1 \<and>
   conflictQuery_param booked_db 1 (param_value (pg_startDate unparsed_start_body))
     (param_value (pg_endDate unparsed_start_body)) = [] \<and>
   pg_startDate unparsed_start_body = Val (day 1155) \<and>
   daysAhead (day 1155) (now ex_env) = 1155 \<and>
   maxDaysAhead (tier ex_user) = 30 \<and>
   postReservations ex_env booked_db ex_user unparsed_start_body
     = (booked_db\<lparr>reservations :=
                    [ex_booked, new_row ex_env ex_user (body_of (day 1155) (day 1156))]\<rparr>,
        Inr (new_row ex_env ex_user (body_of (day 1155) (day 1156)))) \<and>
   snd (postReservations ex_env booked_db ex_user unparsed_start_body) \<noteq> Inl (Forbidden 4 30)"
  by (simp add: request_defs example_defs query_defs)

text \<open>
  C7 (as the code has it). For an \<open>:id\<close> that is a UUID, cancelling answers with the
  updated reservation, its status set to cancelled, when a reservation with that id
  exists whose user is the requester, and the datastore then differs only in the status
  and the update time of the rows that matched; when there is none it answers NotFound
  and the datastore is as it was. On an \<open>:id\<close> that is not a UUID the update throws: the
  answer is the internal failure and the datastore is as it was. The answer depends on
  neither the tier and the family of the requester nor the clock of the handler, and the
  dates of the reservation are not read.
\<close>

theorem patchReservationCancel_owner_only:
  "(case p of
      Rejected \<Rightarrow> patchReservationCancel ev db u p = (db, Inl InternalFailure)
    | Null \<Rightarrow> patchReservationCancel ev db u p = (db, Inl NotFound)
    | Val rid \<Rightarrow>
        (if \<exists>r \<in> set (reservations db). r_id r = rid \<and> r_user_id r = u_id u
         then \<exists>r \<in> set (reservations db). r_id r = rid \<and> r_user_id r = u_id u \<and>
                patchReservationCancel ev db u p =
                  (db\<lparr>reservations :=
                        map (\<lambda>x. if r_id x = rid \<and> r_user_id x = u_id u
                                  then x\<lparr>status := Cancelled, updated_at := db_now ev\<rparr> else x)
                            (reservations db)\<rparr>,
                   Inr (r\<lparr>status := Cancelled, updated_at := db_now ev\<rparr>))
         else patchReservationCancel ev db u p = (db, Inl NotFound))) \<and>
   patchReservationCancel ev db (u\<lparr>tier := t, u_family_id := f\<rparr>) p = patchReservationCancel ev db u p \<and>
   patchReservationCancel (ev\<lparr>now := n\<rparr>) db u p = patchReservationCancel ev db u p"
proof (cases p)
  case Rejected
  then show ?thesis by (simp add: patchReservationCancel_def)
next
  case Null
  then show ?thesis by (simp add: patchReservationCancel_def)
next
  case (Val rid)
  with cancelReservation_owner_only [where db=db and rid=rid and u=u and ev=ev and t=t and f=f and n=n] show ?thesis
    by (simp add: patchReservationCancel_def)
qed

theorem patchReservationCancel_owner_only_witness:
  "patchReservationCancel ex_env booked_db ex_user (Val 100)
     = (booked_db\<lparr>reservations := [ex_booked\<lparr>status := Cancelled, updated_at := 5\<rparr>]\<rparr>,
        Inr (ex_booked\<lparr>status := Cancelled, updated_at := 5\<rparr>)) \<and>
   patchReservationCancel ex_env booked_db other_user (Val 100) = (booked_db, Inl NotFound) \<and>
   patchReservationCancel ex_env booked_db ex_user (Val 999) = (booked_db, Inl NotFound) \<and>
   patchReservationCancel ex_env booked_db ex_user Rejected = (booked_db, Inl InternalFailure)"
proof -
  have own: "\<exists>r \<in> set (reservations booked_db). r_id r = 100 \<and> r_user_id r = u_id ex_user"
    by (simp add: example_defs)
  have other: "\<not> (\<exists>r \<in> set (reservations booked_db). r_id r = 100 \<and> r_user_id r = u_id other_user)"
    by (simp add: example_defs)
  have missing: "\<not> (\<exists>r \<in> set (reservations booked_db). r_id r = 999 \<and> r_user_id r = u_id ex_user)"
    by (simp add: example_defs)
  from patchReservationCancel_owner_only [where p="Val 100" and ev=ex_env and db=booked_db and u=ex_user] own
  have 1: "patchReservationCancel ex_env booked_db ex_user (Val 100)
     = (booked_db\<lparr>reservations := [ex_booked\<lparr>status := Cancelled, updated_at := 5\<rparr>]\<rparr>,
        Inr (ex_booked\<lparr>status := Cancelled, updated_at := 5\<rparr>))"
    by (simp add: example_defs)
  from patchReservationCancel_owner_only [where p="Val 100" and ev=ex_env and db=booked_db and u=other_user] other
  have 2: "patchReservationCancel ex_env booked_db other_user (Val 100) = (booked_db, Inl NotFound)"
    by simp
  from patchReservationCancel_owner_only [where p="Val 999" and ev=ex_env and db=booked_db and u=ex_user] missing
  have 3: "patchReservationCancel ex_env booked_db ex_user (Val 999) = (booked_db, Inl NotFound)"
    by simp
  from patchReservationCancel_owner_only [where p=Rejected and ev=ex_env and db=booked_db and u=ex_user]
  have 4: "patchReservationCancel ex_env booked_db ex_user Rejected = (booked_db, Inl InternalFailure)"
    by simp
  from 1 2 3 4 show ?thesis by (intro conjI)
qed

text \<open>
  No reservation has the id \<open>abc\<close>, and the answer is the internal failure, not
  NotFound.
\<close>

theorem patchReservationCancel_malformed_id_counterexample:
  "\<not> (\<exists>r \<in> set (reservations booked_db). Val (r_id r) = (Rejected :: uuid pg_param) \<and> r_user_id r = u_id ex_user) \<and>
   patchReservationCancel ex_env booked_db ex_user Rejected = (booked_db, Inl InternalFailure) \<and>
   snd (patchReservationCancel ex_env booked_db ex_user Rejected) \<noteq> Inl NotFound"
  by (simp add: request_defs example_defs)

end
